theory Spec2Isabelle
  imports Main "HOL-Library.Word"
begin

section \<open>Python values and exceptions\<close>

text \<open>
  The relay (\<^verbatim>\<open>chatbot-backend/main.py\<close>) moves JSON documents around. A decoded JSON
  document is a Python object: \<^verbatim>\<open>None\<close>, a bool, an int, a float, a str, a list or a
  dict with string keys. A float is the 64 bits of its IEEE 754 double; no operation of the
  program inspects one. A dict is an association list read with \<open>map_of\<close>.
\<close>

type_synonym pyfloat = "64 word"

datatype pyobj =
    PNone
  | PBool bool
  | PInt int
  | PFloat pyfloat
  | PStr string
  | PList "pyobj list"
  | PDict "(string \<times> pyobj) list"

text \<open>
  The exceptions that can travel through the two handlers. Every constructor is a
  subclass of Python's \<^verbatim>\<open>Exception\<close>; \<open>HTTPException\<close> is the framework's class
  (status code, detail), \<open>RequestException\<close> stands for every exception of the
  \<^verbatim>\<open>requests.exceptions.RequestException\<close> family and carries its message,
  \<open>KeyError\<close> carries the missing key, \<open>OtherException\<close> is any further exception.
\<close>

datatype exn =
    RequestException string
  | KeyError string
  | TypeError string
  | HTTPException nat string
  | OtherException string

subsection \<open>Decimal rendering of a status code\<close>

definition digit_char :: "nat \<Rightarrow> char" where
  "digit_char d = (''0123456789'' ! d)"

function string_of_nat :: "nat \<Rightarrow> string" where
  "string_of_nat n =
     (if n < 10 then [digit_char n]
      else string_of_nat (n div 10) @ [digit_char (n mod 10)])"
  by pat_completeness auto
termination
  by (relation "measure (\<lambda>n. n)") auto

declare string_of_nat.simps [simp del]

subsection \<open>\<^verbatim>\<open>str(e)\<close> and subscripting\<close>

text \<open>
  \<^verbatim>\<open>repr\<close> of a key. The program subscripts with the two literal keys
  \<^verbatim>\<open>"message"\<close> and \<^verbatim>\<open>"content"\<close> only; they hold no quote, backslash or unprintable
  character, and for such a string \<^verbatim>\<open>repr\<close> adds the single quotes and nothing else.
\<close>

definition repr :: "string \<Rightarrow> string" where
  "repr k = CHR 0x27 # k @ [CHR 0x27]"

text \<open>
  \<^verbatim>\<open>str(e)\<close>. A \<open>RequestException\<close>, \<open>TypeError\<close> or \<open>OtherException\<close> is modelled by
  its message; \<^verbatim>\<open>str(KeyError(k))\<close> is \<^verbatim>\<open>repr(k)\<close>; the framework's
  \<^verbatim>\<open>HTTPException.__str__\<close> renders \<^verbatim>\<open>f"{status_code}: {detail}"\<close>.
\<close>

fun str :: "exn \<Rightarrow> string" where
  "str (RequestException m) = m"
| "str (KeyError k) = repr k"
| "str (TypeError m) = m"
| "str (HTTPException sc d) = string_of_nat sc @ '': '' @ d"
| "str (OtherException m) = m"

text \<open>
  \<^verbatim>\<open>obj[key]\<close> with a string key: a dict returns the value or raises \<^verbatim>\<open>KeyError(key)\<close>,
  every other JSON value raises \<^verbatim>\<open>TypeError\<close>.
\<close>

fun getitem :: "pyobj \<Rightarrow> string \<Rightarrow> exn + pyobj" where
  "getitem (PDict kvs) k = (case map_of kvs k of Some v \<Rightarrow> Inr v | None \<Rightarrow> Inl (KeyError k))"
| "getitem (PList xs) k = Inl (TypeError ''list indices must be integers or slices, not str'')"
| "getitem (PStr s) k = Inl (TypeError (''string indices must be integers, not '' @ repr ''str''))"
| "getitem PNone k = Inl (TypeError (repr ''NoneType'' @ '' object is not subscriptable''))"
| "getitem (PBool b) k = Inl (TypeError (repr ''bool'' @ '' object is not subscriptable''))"
| "getitem (PInt i) k = Inl (TypeError (repr ''int'' @ '' object is not subscriptable''))"
| "getitem (PFloat f) k = Inl (TypeError (repr ''float'' @ '' object is not subscriptable''))"

section \<open>The outbound HTTP call\<close>

text \<open>
  \<^verbatim>\<open>requests.post(url, json=payload, timeout=60)\<close>: the three arguments the program
  passes. The timeout is the number of seconds handed to the library.
\<close>

record post_request =
  post_url :: string
  post_json :: pyobj
  post_timeout :: nat

text \<open>
  What comes back when the call returns: the final status code, the reason phrase and
  URL (they appear in the message of \<^verbatim>\<open>raise_for_status\<close>), and what
  \<^verbatim>\<open>response.json()\<close> does on the body: it returns the decoded document or raises.
\<close>

record response =
  status_code :: nat
  reason :: string
  url :: string
  json :: "exn + pyobj"

text \<open>
  The upstream server and the network are the environment: given the calls made so far
  and the present call, the library raises or returns a response.
\<close>

type_synonym upstream = "post_request list \<Rightarrow> post_request \<Rightarrow> exn + response"

text \<open>
  \<^verbatim>\<open>Response.raise_for_status()\<close> of the requests library: an \<^verbatim>\<open>HTTPError\<close> (a
  \<open>RequestException\<close>) for a status in 400..599, nothing otherwise.
\<close>

definition raise_for_status :: "response \<Rightarrow> exn + unit" where
  "raise_for_status r =
     (if 400 \<le> status_code r \<and> status_code r < 500 then
        Inl (RequestException (string_of_nat (status_code r) @ '' Client Error: '' @ reason r
              @ '' for url: '' @ url r))
      else if 500 \<le> status_code r \<and> status_code r < 600 then
        Inl (RequestException (string_of_nat (status_code r) @ '' Server Error: '' @ reason r
              @ '' for url: '' @ url r))
      else Inr ())"

section \<open>Process state\<close>

text \<open>
  The module globals \<^verbatim>\<open>OLLAMA_URL\<close> and \<^verbatim>\<open>OLLAMA_MODEL\<close>, assigned once when the
  module is loaded, and the only effect of the program: the outbound calls issued so
  far, oldest first.
\<close>

record process =
  OLLAMA_URL :: string
  OLLAMA_MODEL :: string
  outbound :: "post_request list"

definition requests_post :: "upstream \<Rightarrow> post_request \<Rightarrow> process \<Rightarrow> (exn + response) \<times> process" where
  "requests_post up req p = (up (outbound p) req, p\<lparr>outbound := outbound p @ [req]\<rparr>)"

subsection \<open>Start-up: \<^verbatim>\<open>load_dotenv()\<close> and \<^verbatim>\<open>os.getenv\<close>\<close>

type_synonym environ = "string \<rightharpoonup> string"

text \<open>
  \<^verbatim>\<open>load_dotenv()\<close> adds the variables of the \<^verbatim>\<open>.env\<close> file to the environment and
  leaves a variable that is already set as it is.
\<close>

definition load_dotenv :: "environ \<Rightarrow> environ \<Rightarrow> environ" where
  "load_dotenv dotenv env = (\<lambda>k. case env k of Some v \<Rightarrow> Some v | None \<Rightarrow> dotenv k)"

definition os_getenv :: "environ \<Rightarrow> string \<Rightarrow> string \<Rightarrow> string" where
  "os_getenv env k dflt = (case env k of Some v \<Rightarrow> v | None \<Rightarrow> dflt)"

definition startup :: "environ \<Rightarrow> environ \<Rightarrow> process" where
  "startup dotenv env =
     (let env' = load_dotenv dotenv env in
      \<lparr>OLLAMA_URL = os_getenv env' ''OLLAMA_URL'' ''http://localhost:11434'',
       OLLAMA_MODEL = os_getenv env' ''OLLAMA_MODEL'' ''qwen2.5'',
       outbound = []\<rparr>)"

section \<open>The handlers\<close>

definition default_system_message :: string where
  "default_system_message = ''You are a helpful assistant.''"

text \<open>The body of the \<^verbatim>\<open>try\<close> block of \<^verbatim>\<open>call_ollama\<close>.\<close>

definition call_ollama_try :: "upstream \<Rightarrow> string \<Rightarrow> string \<Rightarrow> process \<Rightarrow> (exn + pyobj) \<times> process" where
  "call_ollama_try up prompt system_message p =
     (let payload = PDict
            [(''model'', PStr (OLLAMA_MODEL p)),
             (''messages'', PList
                [PDict [(''role'', PStr ''system''), (''content'', PStr system_message)],
                 PDict [(''role'', PStr ''user''), (''content'', PStr prompt)]]),
             (''stream'', PBool False)];
          (r, p') = requests_post up
            \<lparr>post_url = OLLAMA_URL p @ ''/api/chat'', post_json = payload, post_timeout = 60\<rparr> p
      in (case r of
            Inl e \<Rightarrow> Inl e
          | Inr response \<Rightarrow>
              (case raise_for_status response of
                 Inl e \<Rightarrow> Inl e
               | Inr _ \<Rightarrow>
                   (case json response of
                      Inl e \<Rightarrow> Inl e
                    | Inr result \<Rightarrow>
                        (case getitem result ''message'' of
                           Inl e \<Rightarrow> Inl e
                         | Inr m \<Rightarrow> getitem m ''content''))),
          p'))"

text \<open>
  The two \<^verbatim>\<open>except\<close> clauses of \<^verbatim>\<open>call_ollama\<close>, in the source's order; an exception of
  another class propagates unchanged.
\<close>

fun call_ollama_except :: "exn \<Rightarrow> exn" where
  "call_ollama_except (RequestException m) =
     HTTPException 503 (''Ollama service unavailable: '' @ str (RequestException m))"
| "call_ollama_except (KeyError k) =
     HTTPException 502 (''Unexpected response format from Ollama: '' @ str (KeyError k))"
| "call_ollama_except e = e"

definition call_ollama :: "upstream \<Rightarrow> string \<Rightarrow> string \<Rightarrow> process \<Rightarrow> (exn + pyobj) \<times> process" where
  "call_ollama up prompt system_message p =
     (case call_ollama_try up prompt system_message p of
        (Inl e, p') \<Rightarrow> (Inl (call_ollama_except e), p')
      | (Inr v, p') \<Rightarrow> (Inr v, p'))"

definition health_check :: "process \<Rightarrow> (exn + pyobj) \<times> process" where
  "health_check p =
     (Inr (PDict [(''status'', PStr ''ok''), (''model'', PStr (OLLAMA_MODEL p)),
                  (''ollama_url'', PStr (OLLAMA_URL p))]), p)"

text \<open>The validated request body, \<^verbatim>\<open>class ChatInput(BaseModel)\<close>.\<close>

record ChatInput =
  user_message :: string

text \<open>
  \<^verbatim>\<open>chat_with_ai\<close>: the blanket \<^verbatim>\<open>except Exception\<close> catches every exception of
  \<open>exn\<close>, the \<open>HTTPException\<close> raised by \<^verbatim>\<open>call_ollama\<close> included.
\<close>

definition chat_with_ai :: "upstream \<Rightarrow> ChatInput \<Rightarrow> process \<Rightarrow> (exn + pyobj) \<times> process" where
  "chat_with_ai up input_data p =
     (case call_ollama up (user_message input_data) default_system_message p of
        (Inr bot_response, p') \<Rightarrow> (Inr (PDict [(''bot_response'', bot_response)]), p')
      | (Inl e, p') \<Rightarrow> (Inl (HTTPException 500 (str e)), p'))"

section \<open>The framework around the handlers\<close>

text \<open>
  An HTTP response of the service: status code and JSON body.
\<close>

record http_response =
  status :: nat
  body :: pyobj

text \<open>
  Validation of the request body against \<^verbatim>\<open>ChatInput\<close>, whose one field is
  \<^verbatim>\<open>user_message: str\<close> with no default and no constraint: the body must be an object
  that has the key with a string value. The result is the list of validation errors or
  the model instance. An error object names its type, the location, a message and the
  input that was refused.
\<close>

definition validation_error :: "string \<Rightarrow> pyobj list \<Rightarrow> string \<Rightarrow> pyobj \<Rightarrow> pyobj" where
  "validation_error ty loc msg inp =
     PDict [(''type'', PStr ty), (''loc'', PList loc), (''msg'', PStr msg), (''input'', inp)]"

fun ChatInput_validate :: "pyobj \<Rightarrow> pyobj list + ChatInput" where
  "ChatInput_validate (PDict kvs) =
     (case map_of kvs ''user_message'' of
        None \<Rightarrow>
          Inl [validation_error ''missing'' [PStr ''body'', PStr ''user_message'']
                 ''Field required'' (PDict kvs)]
      | Some (PStr s) \<Rightarrow> Inr \<lparr>user_message = s\<rparr>
      | Some v \<Rightarrow>
          Inl [validation_error ''string_type'' [PStr ''body'', PStr ''user_message'']
                 ''Input should be a valid string'' v])"
| "ChatInput_validate PNone =
     Inl [validation_error ''missing'' [PStr ''body''] ''Field required'' PNone]"
| "ChatInput_validate v =
     Inl [validation_error ''model_attributes_type'' [PStr ''body'']
            ''Input should be a valid dictionary or object to extract fields from'' v]"

text \<open>
  The framework writes a returned value with \<^verbatim>\<open>json.dumps(..., allow_nan=False)\<close>, which
  raises on a float that is not finite (NaN or an infinity: all eleven exponent bits
  set), wherever it sits in the value.
\<close>

definition isfinite :: "pyfloat \<Rightarrow> bool" where
  "isfinite f \<longleftrightarrow> unat (take_bit 11 (drop_bit 52 f)) < 2047"

fun serialisable :: "pyobj \<Rightarrow> bool" where
  "serialisable (PFloat f) = isfinite f"
| "serialisable (PList xs) = list_all serialisable xs"
| "serialisable (PDict kvs) = list_all serialisable (map snd kvs)"
| "serialisable _ = True"

text \<open>
  What the framework makes of a handler's outcome: a returned value is the body of a
  200 response if it can be serialised, an \<open>HTTPException\<close> gives its status code with the
  body \<^verbatim>\<open>{"detail": detail}\<close>, and any other exception, the serialisation failure
  included, is an internal server error.
\<close>

fun render :: "exn + pyobj \<Rightarrow> http_response" where
  "render (Inr v) =
     (if serialisable v then \<lparr>status = 200, body = v\<rparr>
      else \<lparr>status = 500, body = PStr ''Internal Server Error''\<rparr>)"
| "render (Inl (HTTPException sc d)) = \<lparr>status = sc, body = PDict [(''detail'', PStr d)]\<rparr>"
| "render (Inl e) = \<lparr>status = 500, body = PStr ''Internal Server Error''\<rparr>"

text \<open>\<^verbatim>\<open>GET /\<close>.\<close>

definition serve_health :: "process \<Rightarrow> http_response \<times> process" where
  "serve_health p = (case health_check p of (r, p') \<Rightarrow> (render r, p'))"

text \<open>
  \<^verbatim>\<open>POST /chat\<close>: a body that fails validation is answered with 422 and the handler
  does not run.
\<close>

definition serve_chat :: "upstream \<Rightarrow> pyobj \<Rightarrow> process \<Rightarrow> http_response \<times> process" where
  "serve_chat up request_body p =
     (case ChatInput_validate request_body of
        Inl errs \<Rightarrow> (\<lparr>status = 422, body = PDict [(''detail'', PList errs)]\<rparr>, p)
      | Inr input_data \<Rightarrow> (case chat_with_ai up input_data p of (r, p') \<Rightarrow> (render r, p')))"

text \<open>The requests of a process lifetime, served one after the other.\<close>

datatype request = GetRoot | PostChat pyobj

fun serve :: "upstream \<Rightarrow> request \<Rightarrow> process \<Rightarrow> http_response \<times> process" where
  "serve up GetRoot p = serve_health p"
| "serve up (PostChat b) p = serve_chat up b p"

fun serve_all :: "upstream \<Rightarrow> request list \<Rightarrow> process \<Rightarrow> http_response list \<times> process" where
  "serve_all up [] p = ([], p)"
| "serve_all up (r # rs) p =
     (case serve up r p of (x, p') \<Rightarrow> (case serve_all up rs p' of (xs, p'') \<Rightarrow> (x # xs, p'')))"

text \<open>\<^verbatim>\<open>health_check\<close> invoked \<open>n\<close> times in a row.\<close>

fun health_checks :: "nat \<Rightarrow> process \<Rightarrow> (exn + pyobj) list \<times> process" where
  "health_checks 0 p = ([], p)"
| "health_checks (Suc n) p =
     (case health_check p of (r, p') \<Rightarrow> (case health_checks n p' of (rs, p'') \<Rightarrow> (r # rs, p'')))"

section \<open>Cross-origin configuration\<close>

text \<open>The arguments of \<^verbatim>\<open>app.add_middleware(CORSMiddleware, ...)\<close>.\<close>

record cors_config =
  allow_origins :: "string list"
  allow_credentials :: bool
  allow_methods :: "string list"
  allow_headers :: "string list"

definition origins :: "string list" where
  "origins = [''http://localhost:5173'', ''http://localhost:3000'']"

definition cors :: cors_config where
  "cors = \<lparr>allow_origins = origins, allow_credentials = True,
           allow_methods = [''*''], allow_headers = [''*'']\<rparr>"

text \<open>
  Modelled from the spec: the middleware class \<^verbatim>\<open>CORSMiddleware\<close> that enforces the
  policy belongs to the framework and is not among the sources. The specification says
  that cross-origin requests are accepted from the allow-listed origins only and that for
  an origin outside the list no \<^verbatim>\<open>Access-Control-Allow-Origin\<close> is echoed. The function
  gives the value of that response header for a request with the given \<^verbatim>\<open>Origin\<close>, if the
  header is sent at all.
\<close>

definition access_control_allow_origin :: "cors_config \<Rightarrow> string \<Rightarrow> string option" where
  "access_control_allow_origin c origin =
     (if origin \<in> set (allow_origins c) then Some origin else None)"

section \<open>Names used in the statements\<close>

text \<open>
  The call that \<^verbatim>\<open>call_ollama\<close> builds from the configuration, the prompt and the system
  message (lemma \<open>call_ollama_try_eq\<close> below shows that it is the call issued).
\<close>

definition ollama_post :: "process \<Rightarrow> string \<Rightarrow> string \<Rightarrow> post_request" where
  "ollama_post p prompt system_message =
     \<lparr>post_url = OLLAMA_URL p @ ''/api/chat'',
      post_json = PDict
        [(''model'', PStr (OLLAMA_MODEL p)),
         (''messages'', PList
            [PDict [(''role'', PStr ''system''), (''content'', PStr system_message)],
             PDict [(''role'', PStr ''user''), (''content'', PStr prompt)]]),
         (''stream'', PBool False)],
      post_timeout = 60\<rparr>"

text \<open>
  A logged call agrees with a configuration (base URL \<open>u\<close>, model \<open>m\<close>), and a process is
  in a state where its globals are \<open>u\<close> and \<open>m\<close> and every logged call agrees with them.
\<close>

definition configured_post :: "string \<Rightarrow> string \<Rightarrow> post_request \<Rightarrow> bool" where
  "configured_post u m r \<longleftrightarrow>
     post_url r = u @ ''/api/chat'' \<and>
     getitem (post_json r) ''model'' = Inr (PStr m) \<and>
     post_timeout r = 60"

definition configured :: "string \<Rightarrow> string \<Rightarrow> process \<Rightarrow> bool" where
  "configured u m p \<longleftrightarrow>
     OLLAMA_URL p = u \<and> OLLAMA_MODEL p = m \<and> list_all (configured_post u m) (outbound p)"

section \<open>Environments used in the examples\<close>

definition proc0 :: process where
  "proc0 = startup Map.empty Map.empty"

definition hello_response :: response where
  "hello_response =
     \<lparr>status_code = 200, reason = ''OK'', url = ''http://localhost:11434/api/chat'',
      json = Inr (PDict [(''message'', PDict [(''content'', PStr ''Hello!'')])])\<rparr>"

definition upstream_hello :: upstream where
  "upstream_hello h req = Inr hello_response"

definition upstream_refused :: upstream where
  "upstream_refused h req = Inl (RequestException ''Connection refused'')"

definition upstream_foo_bar :: upstream where
  "upstream_foo_bar h req =
     Inr \<lparr>status_code = 200, reason = ''OK'', url = ''http://localhost:11434/api/chat'',
          json = Inr (PDict [(''foo'', PStr ''bar'')])\<rparr>"

definition upstream_multiple_choices :: upstream where
  "upstream_multiple_choices h req = Inr (hello_response\<lparr>status_code := 300, reason := ''Multiple Choices''\<rparr>)"

definition server_error_response :: response where
  "server_error_response =
     \<lparr>status_code = 500, reason = ''Internal Server Error'',
      url = ''http://localhost:11434/api/chat'', json = Inl (RequestException ''Expecting value'')\<rparr>"

definition upstream_server_error :: upstream where
  "upstream_server_error h req = Inr server_error_response"

definition env_llama3 :: environ where
  "env_llama3 = [''OLLAMA_MODEL'' \<mapsto> ''llama3'']"

definition no_variables :: environ where
  "no_variables = Map.empty"

definition env_remote :: environ where
  "env_remote = [''OLLAMA_URL'' \<mapsto> ''http://10.0.0.5:11434'']"

definition dotenv_file :: environ where
  "dotenv_file = [''OLLAMA_URL'' \<mapsto> ''http://ollama:11434'', ''OLLAMA_MODEL'' \<mapsto> ''mistral'']"

definition upstream_nan :: upstream where
  "upstream_nan h req =
     Inr (hello_response\<lparr>json :=
       Inr (PDict [(''message'', PDict [(''content'', PFloat 0x7FF8000000000000)])])\<rparr>)"

section \<open>Auxiliary facts\<close>

lemma string_of_nat_500: "string_of_nat 500 = ''500''"
  by (simp add: string_of_nat.simps digit_char_def)

lemma string_of_nat_502: "string_of_nat 502 = ''502''"
  by (simp add: string_of_nat.simps digit_char_def)

lemma string_of_nat_503: "string_of_nat 503 = ''503''"
  by (simp add: string_of_nat.simps digit_char_def)

text \<open>The \<^verbatim>\<open>try\<close> block issues one call, whatever comes back, and then follows the response.\<close>

lemma call_ollama_try_eq:
  "call_ollama_try up prompt sm p =
     ((case up (outbound p) (ollama_post p prompt sm) of
         Inl e \<Rightarrow> Inl e
       | Inr response \<Rightarrow>
           (case raise_for_status response of
              Inl e \<Rightarrow> Inl e
            | Inr _ \<Rightarrow>
                (case json response of
                   Inl e \<Rightarrow> Inl e
                 | Inr result \<Rightarrow>
                     (case getitem result ''message'' of
                        Inl e \<Rightarrow> Inl e
                      | Inr m \<Rightarrow> getitem m ''content'')))),
      p\<lparr>outbound := outbound p @ [ollama_post p prompt sm]\<rparr>)"
  by (simp add: call_ollama_try_def requests_post_def ollama_post_def Let_def)

lemma call_ollama_fst:
  "fst (call_ollama up prompt sm p) =
     (case fst (call_ollama_try up prompt sm p) of
        Inl e \<Rightarrow> Inl (call_ollama_except e) | Inr v \<Rightarrow> Inr v)"
  by (simp add: call_ollama_def split: prod.splits sum.splits)

lemma call_ollama_snd:
  "snd (call_ollama up prompt sm p) = p\<lparr>outbound := outbound p @ [ollama_post p prompt sm]\<rparr>"
  by (simp add: call_ollama_def call_ollama_try_eq split: sum.splits)

lemma chat_with_ai_fst:
  "fst (chat_with_ai up inp p) =
     (case fst (call_ollama up (user_message inp) default_system_message p) of
        Inr v \<Rightarrow> Inr (PDict [(''bot_response'', v)])
      | Inl e \<Rightarrow> Inl (HTTPException 500 (str e)))"
  by (simp add: chat_with_ai_def split: prod.splits sum.splits)

lemma chat_with_ai_snd:
  "snd (chat_with_ai up inp p) =
     p\<lparr>outbound := outbound p @ [ollama_post p (user_message inp) default_system_message]\<rparr>"
  using call_ollama_snd [of up "user_message inp" default_system_message p]
  by (auto simp add: chat_with_ai_def split: prod.splits sum.splits)

lemma raise_for_status_error:
  "400 \<le> status_code r \<Longrightarrow> status_code r < 600 \<Longrightarrow>
   raise_for_status r =
     Inl (RequestException (string_of_nat (status_code r)
            @ (if status_code r < 500 then '' Client Error: '' else '' Server Error: '')
            @ reason r @ '' for url: '' @ url r))"
  by (simp add: raise_for_status_def)

lemma raise_for_status_ok:
  "status_code r < 400 \<Longrightarrow> raise_for_status r = Inr ()"
  by (simp add: raise_for_status_def)

lemma serve_chat_valid:
  "serve_chat up (PDict [(''user_message'', PStr s)]) p =
     (render (fst (chat_with_ai up \<lparr>user_message = s\<rparr> p)),
      snd (chat_with_ai up \<lparr>user_message = s\<rparr> p))"
  by (simp add: serve_chat_def split: prod.splits)

lemma health_check_eq:
  "health_check p =
     (Inr (PDict [(''status'', PStr ''ok''), (''model'', PStr (OLLAMA_MODEL p)),
                  (''ollama_url'', PStr (OLLAMA_URL p))]), p)"
  by (simp add: health_check_def)

lemma serve_health_eq:
  "serve_health p =
     (\<lparr>status = 200,
       body = PDict [(''status'', PStr ''ok''), (''model'', PStr (OLLAMA_MODEL p)),
                     (''ollama_url'', PStr (OLLAMA_URL p))]\<rparr>, p)"
  by (simp add: serve_health_def health_check_def)

text \<open>A chat request leaves the process as it is or appends one call to the log.\<close>

lemma serve_chat_snd:
  "snd (serve_chat up b p) = p \<or>
   (\<exists>s. snd (serve_chat up b p) =
      p\<lparr>outbound := outbound p @ [ollama_post p s default_system_message]\<rparr>)"
proof (cases "ChatInput_validate b")
  case (Inl errs)
  then show ?thesis by (simp add: serve_chat_def)
next
  case (Inr inp)
  have "snd (serve_chat up b p) = snd (chat_with_ai up inp p)"
    using Inr by (simp add: serve_chat_def split: prod.splits)
  then show ?thesis
    by (auto simp add: chat_with_ai_snd)
qed

lemma configured_post_ollama_post:
  "configured_post (OLLAMA_URL p) (OLLAMA_MODEL p) (ollama_post p s sm)"
  by (simp add: configured_post_def ollama_post_def)

lemma serve_keeps:
  assumes "configured u m p"
  shows "configured u m (snd (serve up r p))"
proof (cases r)
  case GetRoot
  then show ?thesis using assms by (simp add: serve_health_eq)
next
  case (PostChat b)
  from serve_chat_snd [of up b p] show ?thesis
  proof
    assume "snd (serve_chat up b p) = p"
    then show ?thesis using assms PostChat by simp
  next
    assume "\<exists>s. snd (serve_chat up b p) =
               p\<lparr>outbound := outbound p @ [ollama_post p s default_system_message]\<rparr>"
    then obtain s where "snd (serve_chat up b p) =
               p\<lparr>outbound := outbound p @ [ollama_post p s default_system_message]\<rparr>" ..
    then show ?thesis
      using assms PostChat configured_post_ollama_post [of p s default_system_message]
      by (auto simp add: configured_def)
  qed
qed

lemma serve_all_keeps:
  "configured u m p \<Longrightarrow> configured u m (snd (serve_all up rs p))"
proof (induction rs arbitrary: p)
  case Nil
  then show ?case by simp
next
  case (Cons r rs)
  have "configured u m (snd (serve up r p))"
    using Cons.prems by (rule serve_keeps)
  then have "configured u m (snd (serve_all up rs (snd (serve up r p))))"
    by (rule Cons.IH)
  moreover have "snd (serve_all up (r # rs) p) = snd (serve_all up rs (snd (serve up r p)))"
    by (simp add: split_beta)
  ultimately show ?case by simp
qed

lemma startup_configured:
  "configured (OLLAMA_URL (startup dotenv env)) (OLLAMA_MODEL (startup dotenv env))
     (startup dotenv env)"
  by (simp add: configured_def startup_def Let_def)

text \<open>
  Every call a process has issued since start-up was given \<^verbatim>\<open>timeout=60\<close> and went to
  \<^verbatim>\<open>/api/chat\<close> under the configured base URL.
\<close>

lemma every_post_timeout_60:
  assumes "r \<in> set (outbound (snd (serve_all up rs (startup dotenv env))))"
  shows "post_timeout r = 60 \<and> post_url r = OLLAMA_URL (startup dotenv env) @ ''/api/chat''"
proof -
  have "configured (OLLAMA_URL (startup dotenv env)) (OLLAMA_MODEL (startup dotenv env))
          (snd (serve_all up rs (startup dotenv env)))"
    by (rule serve_all_keeps) (rule startup_configured)
  then show ?thesis
    using assms by (simp add: configured_def list_all_iff configured_post_def)
qed

text \<open>
  A reply whose content is a NaN is returned by the handler and fails in serialisation.
\<close>

lemma nan_not_finite: "\<not> isfinite 0x7FF8000000000000"
  unfolding isfinite_def by code_simp

lemma chat_nan_content_is_500:
  "fst (serve_chat upstream_nan (PDict [(''user_message'', PStr ''hi'')]) proc0)
     = \<lparr>status = 500, body = PStr ''Internal Server Error''\<rparr>"
  by (simp add: serve_chat_valid chat_with_ai_fst call_ollama_fst call_ollama_try_eq
      upstream_nan_def hello_response_def raise_for_status_def nan_not_finite)

lemma call_ollama_missing_key:
  assumes "up (outbound p) (ollama_post p s sm) = Inr r" and "status_code r < 400"
    and "json r = Inr (PDict kvs)" and "map_of kvs ''message'' = None"
  shows "fst (call_ollama up s sm p) =
           Inl (HTTPException 502 (''Unexpected response format from Ollama: '' @ repr ''message''))"
  using assms by (simp add: call_ollama_fst call_ollama_try_eq raise_for_status_ok)

section \<open>Upstream failures\<close>

text \<open>
  C1. The claim is that when the outbound call fails at transport level or the upstream
  answers with a non-2xx status, Chat responds with status 503 and a detail holding
  "unavailable" and the transport error text. What holds: when the library raises a
  \<open>RequestException\<close> for the call (connection refused, unreachable, timeout), or the final
  response has a status from 400 to 599 (where \<^verbatim>\<open>raise_for_status\<close> raises), then
  \<^verbatim>\<open>call_ollama\<close> raises \<open>HTTPException\<close> with status 503 and the detail
  "Ollama service unavailable: " followed by the text of the error.
\<close>

theorem call_ollama_unavailable:
  "(up (outbound p) (ollama_post p s default_system_message) = Inl (RequestException m) \<longrightarrow>
      fst (call_ollama up s default_system_message p) =
        Inl (HTTPException 503 (''Ollama service unavailable: '' @ m))) \<and>
   (up (outbound p) (ollama_post p s default_system_message) = Inr r \<and>
    400 \<le> status_code r \<and> status_code r < 600 \<longrightarrow>
      fst (call_ollama up s default_system_message p) =
        Inl (HTTPException 503 (''Ollama service unavailable: '' @ string_of_nat (status_code r)
              @ (if status_code r < 500 then '' Client Error: '' else '' Server Error: '')
              @ reason r @ '' for url: '' @ url r)))"
  by (simp add: call_ollama_fst call_ollama_try_eq raise_for_status_error)

text \<open>
  The two cases at work: a refused connection, and an upstream that answers 500.
\<close>

theorem call_ollama_unavailable_witness:
  "upstream_refused (outbound proc0) (ollama_post proc0 ''hi'' default_system_message)
     = Inl (RequestException ''Connection refused'') \<and>
   fst (call_ollama upstream_refused ''hi'' default_system_message proc0)
     = Inl (HTTPException 503 ''Ollama service unavailable: Connection refused'') \<and>
   upstream_server_error (outbound proc0) (ollama_post proc0 ''hi'' default_system_message)
     = Inr server_error_response \<and>
   400 \<le> status_code server_error_response \<and> status_code server_error_response < 600 \<and>
   fst (call_ollama upstream_server_error ''hi'' default_system_message proc0)
     = Inl (HTTPException 503
         ''Ollama service unavailable: 500 Server Error: Internal Server Error for url: http://localhost:11434/api/chat'')"
proof -
  have a: "upstream_refused (outbound proc0) (ollama_post proc0 ''hi'' default_system_message)
     = Inl (RequestException ''Connection refused'')"
    by (simp add: upstream_refused_def)
  have b: "upstream_server_error (outbound proc0) (ollama_post proc0 ''hi'' default_system_message)
     = Inr server_error_response"
    by (simp add: upstream_server_error_def)
  have c: "400 \<le> status_code server_error_response" "status_code server_error_response < 600"
    "status_code server_error_response = 500" "reason server_error_response = ''Internal Server Error''"
    "url server_error_response = ''http://localhost:11434/api/chat''"
    by (simp_all add: server_error_response_def)
  show ?thesis
    using a b c
      call_ollama_unavailable [of upstream_refused proc0 "''hi''" "''Connection refused''"]
      call_ollama_unavailable [of upstream_server_error proc0 "''hi''" _ server_error_response]
    by (simp add: string_of_nat_500)
qed

text \<open>
  The claim as stated fails in two ways. An upstream that answers 300 (a non-2xx status
  that \<^verbatim>\<open>raise_for_status\<close> lets pass) with a well-formed body gets a 200 response;
  and when the connection is refused the response of \<^verbatim>\<open>POST /chat\<close> has status 500, not
  503.
\<close>

theorem chat_unavailable_counterexample:
  "fst (serve_chat upstream_multiple_choices (PDict [(''user_message'', PStr ''hi'')]) proc0)
     = \<lparr>status = 200, body = PDict [(''bot_response'', PStr ''Hello!'')]\<rparr> \<and>
   fst (serve_chat upstream_refused (PDict [(''user_message'', PStr ''hi'')]) proc0)
     = \<lparr>status = 500,
        body = PDict [(''detail'', PStr ''503: Ollama service unavailable: Connection refused'')]\<rparr>"
  by (simp add: serve_chat_valid chat_with_ai_fst call_ollama_fst call_ollama_try_eq
      upstream_multiple_choices_def upstream_refused_def hello_response_def
      raise_for_status_def string_of_nat_503)

text \<open>
  C2. The claim is that a 2xx response whose body lacks \<^verbatim>\<open>message\<close> (for instance
  \<^verbatim>\<open>{"foo": "bar"}\<close>) makes Chat respond with status 502. \<^verbatim>\<open>call_ollama\<close> raises the
  502 (lemma \<open>call_ollama_missing_key\<close>), but \<^verbatim>\<open>chat_with_ai\<close> catches it: on that body
  the response of \<^verbatim>\<open>POST /chat\<close> has status 500, and the 502 survives only inside the
  detail text.
\<close>

theorem chat_missing_message_is_500:
  "fst (serve_chat upstream_foo_bar (PDict [(''user_message'', PStr ''hi'')]) proc0)
     = \<lparr>status = 500,
        body = PDict [(''detail'',
          PStr (''502: Unexpected response format from Ollama: '' @ repr ''message''))]\<rparr>"
  by (simp add: serve_chat_valid chat_with_ai_fst call_ollama_fst call_ollama_try_eq
      upstream_foo_bar_def raise_for_status_def string_of_nat_502)

text \<open>
  C3. Whatever exception \<^verbatim>\<open>call_ollama\<close> raises, the 503 and 502 \<open>HTTPException\<close>s
  included, \<^verbatim>\<open>chat_with_ai\<close> catches it and raises a new \<open>HTTPException\<close> with status 500
  whose detail is \<^verbatim>\<open>str\<close> of the original, which for an \<open>HTTPException\<close> is its status
  code, a colon and its detail. So the response of \<^verbatim>\<open>POST /chat\<close> has status 200, 500 or
  (validation failure) 422, never 502 or 503.
\<close>

theorem chat_errors_become_500:
  "(fst (call_ollama up (user_message inp) default_system_message p) = Inl e \<longrightarrow>
      fst (chat_with_ai up inp p) = Inl (HTTPException 500 (str e))) \<and>
   (fst (call_ollama up s default_system_message p) = Inl (HTTPException sc d) \<longrightarrow>
      fst (serve_chat up (PDict [(''user_message'', PStr s)]) p) =
        \<lparr>status = 500, body = PDict [(''detail'', PStr (string_of_nat sc @ '': '' @ d))]\<rparr>) \<and>
   (status (fst (serve_chat up b p)) = 200 \<or> status (fst (serve_chat up b p)) = 500 \<or>
    status (fst (serve_chat up b p)) = 422) \<and>
   status (fst (serve_chat up b p)) \<noteq> 502 \<and> status (fst (serve_chat up b p)) \<noteq> 503"
proof -
  have "status (fst (serve_chat up b p)) = 200 \<or> status (fst (serve_chat up b p)) = 500 \<or>
    status (fst (serve_chat up b p)) = 422"
  proof (cases "ChatInput_validate b")
    case (Inl errs)
    then show ?thesis by (simp add: serve_chat_def)
  next
    case (Inr inp')
    have "fst (serve_chat up b p) = render (fst (chat_with_ai up inp' p))"
      using Inr by (simp add: serve_chat_def split: prod.splits)
    then show ?thesis
      by (simp add: chat_with_ai_fst split: sum.splits)
  qed
  moreover from this have "status (fst (serve_chat up b p)) \<noteq> 502 \<and>
    status (fst (serve_chat up b p)) \<noteq> 503"
    by auto
  ultimately show ?thesis
    by (simp add: chat_with_ai_fst serve_chat_valid)
qed

theorem chat_errors_become_500_witness:
  "fst (call_ollama upstream_refused ''hi'' default_system_message proc0)
     = Inl (HTTPException 503 ''Ollama service unavailable: Connection refused'') \<and>
   fst (chat_with_ai upstream_refused \<lparr>user_message = ''hi''\<rparr> proc0)
     = Inl (HTTPException 500 ''503: Ollama service unavailable: Connection refused'') \<and>
   fst (serve_chat upstream_refused (PDict [(''user_message'', PStr ''hi'')]) proc0)
     = \<lparr>status = 500,
        body = PDict [(''detail'', PStr ''503: Ollama service unavailable: Connection refused'')]\<rparr>"
proof -
  have h: "fst (call_ollama upstream_refused ''hi'' default_system_message proc0)
     = Inl (HTTPException 503 ''Ollama service unavailable: Connection refused'')"
    by (simp add: call_ollama_fst call_ollama_try_eq upstream_refused_def)
  show ?thesis
    using h chat_errors_become_500 [of upstream_refused "\<lparr>user_message = ''hi''\<rparr>" proc0
        "HTTPException 503 ''Ollama service unavailable: Connection refused''" "''hi''" 503
        "''Ollama service unavailable: Connection refused''"]
    by (simp add: string_of_nat_503)
qed

section \<open>The successful exchange\<close>

text \<open>
  C4. When the upstream answers the call with a 2xx status and a JSON object whose
  \<^verbatim>\<open>message\<close> is an object whose \<^verbatim>\<open>content\<close> is the string \<open>c\<close>, the response of
  \<^verbatim>\<open>POST /chat\<close> has status 200 and the body \<^verbatim>\<open>{"bot_response": c}\<close>.
\<close>

theorem chat_success:
  assumes "up (outbound p) (ollama_post p s default_system_message) = Inr r"
    and "200 \<le> status_code r" and "status_code r < 300"
    and "json r = Inr result"
    and "getitem result ''message'' = Inr m"
    and "getitem m ''content'' = Inr (PStr c)"
  shows "fst (serve_chat up (PDict [(''user_message'', PStr s)]) p) =
           \<lparr>status = 200, body = PDict [(''bot_response'', PStr c)]\<rparr>"
  using assms
  by (simp add: serve_chat_valid chat_with_ai_fst call_ollama_fst call_ollama_try_eq
      raise_for_status_ok)

text \<open>The body \<^verbatim>\<open>{"message": {"content": "Hello!"}}\<close> with status 200.\<close>

theorem chat_success_witness:
  "upstream_hello (outbound proc0) (ollama_post proc0 ''hi'' default_system_message)
     = Inr hello_response \<and>
   status_code hello_response = 200 \<and>
   json hello_response = Inr (PDict [(''message'', PDict [(''content'', PStr ''Hello!'')])]) \<and>
   fst (serve_chat upstream_hello (PDict [(''user_message'', PStr ''hi'')]) proc0) =
     \<lparr>status = 200, body = PDict [(''bot_response'', PStr ''Hello!'')]\<rparr>"
proof -
  have a: "upstream_hello (outbound proc0) (ollama_post proc0 ''hi'' default_system_message)
     = Inr hello_response"
    by (simp add: upstream_hello_def)
  have b: "status_code hello_response = 200"
    "json hello_response = Inr (PDict [(''message'', PDict [(''content'', PStr ''Hello!'')])])"
    by (simp_all add: hello_response_def)
  have c: "getitem (PDict [(''message'', PDict [(''content'', PStr ''Hello!'')])]) ''message''
      = Inr (PDict [(''content'', PStr ''Hello!'')])"
    "getitem (PDict [(''content'', PStr ''Hello!'')]) ''content'' = Inr (PStr ''Hello!'')"
    by simp_all
  show ?thesis
    using a b c
      chat_success [of upstream_hello proc0 "''hi''" hello_response
        "PDict [(''message'', PDict [(''content'', PStr ''Hello!'')])]"
        "PDict [(''content'', PStr ''Hello!'')]" "''Hello!''"]
    by simp
qed

text \<open>
  C5. For every string \<open>s\<close>, the empty one included, a chat request with the body
  \<^verbatim>\<open>{"user_message": s}\<close> adds exactly one call to the log of outbound calls, whatever the
  upstream does: a POST to the configured base URL followed by \<^verbatim>\<open>/api/chat\<close>, with the
  configured model, the fixed system message, \<open>s\<close> unchanged as the content of the user
  turn, and \<^verbatim>\<open>stream\<close> false.
\<close>

theorem chat_issues_one_post:
  "outbound (snd (serve_chat up (PDict [(''user_message'', PStr s)]) p)) =
     outbound p @
       [\<lparr>post_url = OLLAMA_URL p @ ''/api/chat'',
         post_json = PDict
           [(''model'', PStr (OLLAMA_MODEL p)),
            (''messages'', PList
               [PDict [(''role'', PStr ''system''), (''content'', PStr ''You are a helpful assistant.'')],
                PDict [(''role'', PStr ''user''), (''content'', PStr s)]]),
            (''stream'', PBool False)],
         post_timeout = 60\<rparr>]"
  by (simp add: serve_chat_valid chat_with_ai_snd ollama_post_def default_system_message_def)

section \<open>Health check and configuration\<close>

text \<open>
  C6. \<^verbatim>\<open>health_check\<close> never raises, returns the record of status "ok", the configured
  model and the configured base URL, and leaves the process as it is; invoked \<open>n\<close> times
  in a row it returns that record \<open>n\<close> times. The same holds for \<^verbatim>\<open>GET /\<close>, which answers
  with status 200.
\<close>

theorem health_check_idempotent:
  "health_checks n p =
     (replicate n (Inr (PDict [(''status'', PStr ''ok''), (''model'', PStr (OLLAMA_MODEL p)),
                               (''ollama_url'', PStr (OLLAMA_URL p))])), p) \<and>
   serve_health p =
     (\<lparr>status = 200,
       body = PDict [(''status'', PStr ''ok''), (''model'', PStr (OLLAMA_MODEL p)),
                     (''ollama_url'', PStr (OLLAMA_URL p))]\<rparr>, p)"
proof
  show "health_checks n p =
     (replicate n (Inr (PDict [(''status'', PStr ''ok''), (''model'', PStr (OLLAMA_MODEL p)),
                               (''ollama_url'', PStr (OLLAMA_URL p))])), p)"
    by (induction n) (simp_all add: health_check_eq)
  show "serve_health p =
     (\<lparr>status = 200,
       body = PDict [(''status'', PStr ''ok''), (''model'', PStr (OLLAMA_MODEL p)),
                     (''ollama_url'', PStr (OLLAMA_URL p))]\<rparr>, p)"
    by (rule serve_health_eq)
qed

text \<open>
  C7. The two globals are set at start-up from the environment: a variable that is set
  in the environment gives the value; one that is not set there but in the \<^verbatim>\<open>.env\<close>
  file gives the file's value; where neither sets it, the base URL is
  \<^verbatim>\<open>http://localhost:11434\<close> and the model \<^verbatim>\<open>qwen2.5\<close>. No request changes them. If
  \<^verbatim>\<open>OLLAMA_MODEL\<close> is \<^verbatim>\<open>llama3\<close> in the environment at start-up, then after any sequence of
  requests the health check reports the model \<^verbatim>\<open>llama3\<close> and the payload of every outbound
  call has \<^verbatim>\<open>llama3\<close> as its model.
\<close>

theorem configuration_from_environment:
  "(env ''OLLAMA_URL'' = None \<and> dotenv ''OLLAMA_URL'' = None \<longrightarrow>
      OLLAMA_URL (startup dotenv env) = ''http://localhost:11434'') \<and>
   (env ''OLLAMA_MODEL'' = None \<and> dotenv ''OLLAMA_MODEL'' = None \<longrightarrow>
      OLLAMA_MODEL (startup dotenv env) = ''qwen2.5'') \<and>
   (env ''OLLAMA_URL'' = Some v \<longrightarrow> OLLAMA_URL (startup dotenv env) = v) \<and>
   (env ''OLLAMA_MODEL'' = Some v \<longrightarrow> OLLAMA_MODEL (startup dotenv env) = v) \<and>
   (env ''OLLAMA_URL'' = None \<and> dotenv ''OLLAMA_URL'' = Some v \<longrightarrow>
      OLLAMA_URL (startup dotenv env) = v) \<and>
   (env ''OLLAMA_MODEL'' = None \<and> dotenv ''OLLAMA_MODEL'' = Some v \<longrightarrow>
      OLLAMA_MODEL (startup dotenv env) = v) \<and>
   OLLAMA_URL (snd (serve_all up rs (startup dotenv env))) = OLLAMA_URL (startup dotenv env) \<and>
   OLLAMA_MODEL (snd (serve_all up rs (startup dotenv env))) = OLLAMA_MODEL (startup dotenv env) \<and>
   (env ''OLLAMA_MODEL'' = Some ''llama3'' \<longrightarrow>
      getitem (body (fst (serve_health (snd (serve_all up rs (startup dotenv env)))))) ''model''
        = Inr (PStr ''llama3'') \<and>
      (\<forall>r \<in> set (outbound (snd (serve_all up rs (startup dotenv env)))).
         getitem (post_json r) ''model'' = Inr (PStr ''llama3'')))"
proof -
  define q where "q = snd (serve_all up rs (startup dotenv env))"
  define u where "u = OLLAMA_URL (startup dotenv env)"
  define m where "m = OLLAMA_MODEL (startup dotenv env)"
  have "configured u m q"
    unfolding q_def u_def m_def by (rule serve_all_keeps) (rule startup_configured)
  then have qu: "OLLAMA_URL q = u" and qm: "OLLAMA_MODEL q = m"
    and qo: "\<forall>r \<in> set (outbound q). getitem (post_json r) ''model'' = Inr (PStr m)"
    by (simp_all add: configured_def list_all_iff configured_post_def)
  have d1: "env ''OLLAMA_URL'' = None \<and> dotenv ''OLLAMA_URL'' = None \<longrightarrow> u = ''http://localhost:11434''"
    by (simp add: u_def startup_def Let_def os_getenv_def load_dotenv_def)
  have d2: "env ''OLLAMA_MODEL'' = None \<and> dotenv ''OLLAMA_MODEL'' = None \<longrightarrow> m = ''qwen2.5''"
    by (simp add: m_def startup_def Let_def os_getenv_def load_dotenv_def)
  have l: "env ''OLLAMA_MODEL'' = Some ''llama3'' \<longrightarrow> m = ''llama3''"
    by (simp add: m_def startup_def Let_def os_getenv_def load_dotenv_def)
  have h: "getitem (body (fst (serve_health q))) ''model'' = Inr (PStr m)"
    by (simp add: serve_health_eq qm)
  have s1: "env ''OLLAMA_URL'' = Some v \<longrightarrow> u = v"
    by (simp add: u_def startup_def Let_def os_getenv_def load_dotenv_def)
  have s2: "env ''OLLAMA_MODEL'' = Some v \<longrightarrow> m = v"
    by (simp add: m_def startup_def Let_def os_getenv_def load_dotenv_def)
  have s3: "env ''OLLAMA_URL'' = None \<and> dotenv ''OLLAMA_URL'' = Some v \<longrightarrow> u = v"
    by (simp add: u_def startup_def Let_def os_getenv_def load_dotenv_def)
  have s4: "env ''OLLAMA_MODEL'' = None \<and> dotenv ''OLLAMA_MODEL'' = Some v \<longrightarrow> m = v"
    by (simp add: m_def startup_def Let_def os_getenv_def load_dotenv_def)
  have "(env ''OLLAMA_URL'' = None \<and> dotenv ''OLLAMA_URL'' = None \<longrightarrow> u = ''http://localhost:11434'') \<and>
   (env ''OLLAMA_MODEL'' = None \<and> dotenv ''OLLAMA_MODEL'' = None \<longrightarrow> m = ''qwen2.5'') \<and>
   (env ''OLLAMA_URL'' = Some v \<longrightarrow> u = v) \<and>
   (env ''OLLAMA_MODEL'' = Some v \<longrightarrow> m = v) \<and>
   (env ''OLLAMA_URL'' = None \<and> dotenv ''OLLAMA_URL'' = Some v \<longrightarrow> u = v) \<and>
   (env ''OLLAMA_MODEL'' = None \<and> dotenv ''OLLAMA_MODEL'' = Some v \<longrightarrow> m = v) \<and>
   OLLAMA_URL q = u \<and> OLLAMA_MODEL q = m \<and>
   (env ''OLLAMA_MODEL'' = Some ''llama3'' \<longrightarrow>
      getitem (body (fst (serve_health q))) ''model'' = Inr (PStr ''llama3'') \<and>
      (\<forall>r \<in> set (outbound q). getitem (post_json r) ''model'' = Inr (PStr ''llama3'')))"
    using d1 d2 l h qu qm qo s1 s2 s3 s4 by blast
  then show ?thesis
    unfolding q_def u_def m_def .
qed

text \<open>
  A process started with \<^verbatim>\<open>OLLAMA_MODEL=llama3\<close> and nothing else set, serving one chat
  request and one health check; a process started with nothing set; one started with
  \<^verbatim>\<open>OLLAMA_URL\<close> set; and one whose variables come from the \<^verbatim>\<open>.env\<close> file.
\<close>

theorem configuration_from_environment_witness:
  "env_llama3 ''OLLAMA_MODEL'' = Some ''llama3'' \<and>
   env_llama3 ''OLLAMA_URL'' = None \<and> no_variables ''OLLAMA_URL'' = None \<and>
   no_variables ''OLLAMA_MODEL'' = None \<and>
   OLLAMA_URL (startup no_variables env_llama3) = ''http://localhost:11434'' \<and>
   OLLAMA_MODEL (startup no_variables no_variables) = ''qwen2.5'' \<and>
   getitem (body (fst (serve_health (snd (serve_all upstream_hello
       [PostChat (PDict [(''user_message'', PStr ''hi'')]), GetRoot]
       (startup no_variables env_llama3)))))) ''model'' = Inr (PStr ''llama3'') \<and>
   map (\<lambda>r. getitem (post_json r) ''model'')
     (outbound (snd (serve_all upstream_hello
       [PostChat (PDict [(''user_message'', PStr ''hi'')]), GetRoot]
       (startup no_variables env_llama3)))) = [Inr (PStr ''llama3'')] \<and>
   OLLAMA_MODEL (startup no_variables env_llama3) = ''llama3'' \<and>
   env_remote ''OLLAMA_URL'' = Some ''http://10.0.0.5:11434'' \<and>
   OLLAMA_URL (startup no_variables env_remote) = ''http://10.0.0.5:11434'' \<and>
   dotenv_file ''OLLAMA_URL'' = Some ''http://ollama:11434'' \<and>
   dotenv_file ''OLLAMA_MODEL'' = Some ''mistral'' \<and>
   OLLAMA_URL (startup dotenv_file no_variables) = ''http://ollama:11434'' \<and>
   OLLAMA_MODEL (startup dotenv_file no_variables) = ''mistral''"
proof -
  define q where "q = snd (serve_all upstream_hello
       [PostChat (PDict [(''user_message'', PStr ''hi'')]), GetRoot]
       (startup no_variables env_llama3))"
  have e: "env_llama3 ''OLLAMA_MODEL'' = Some ''llama3''" "env_llama3 ''OLLAMA_URL'' = None"
    "no_variables ''OLLAMA_URL'' = None" "no_variables ''OLLAMA_MODEL'' = None"
    by (simp_all add: env_llama3_def no_variables_def)
  have f: "env_remote ''OLLAMA_URL'' = Some ''http://10.0.0.5:11434''"
    "dotenv_file ''OLLAMA_URL'' = Some ''http://ollama:11434''"
    "dotenv_file ''OLLAMA_MODEL'' = Some ''mistral''"
    by (simp_all add: env_remote_def dotenv_file_def)
  have "length (outbound q) = 1"
    unfolding q_def
    by (simp add: serve_chat_valid chat_with_ai_snd serve_health_eq split_beta startup_def Let_def)
  then obtain r where r: "outbound q = [r]"
    by (cases "outbound q") simp_all
  note a = configuration_from_environment [of env_llama3 no_variables "''llama3''" upstream_hello
        "[PostChat (PDict [(''user_message'', PStr ''hi'')]), GetRoot]", folded q_def]
  note b = configuration_from_environment [of no_variables no_variables _ upstream_hello "[]"]
  note c = configuration_from_environment [of env_remote no_variables "''http://10.0.0.5:11434''"
        upstream_hello "[]"]
  note d1 = configuration_from_environment [of no_variables dotenv_file "''http://ollama:11434''"
        upstream_hello "[]"]
  note d2 = configuration_from_environment [of no_variables dotenv_file "''mistral''"
        upstream_hello "[]"]
  from a e r have 1: "OLLAMA_URL (startup no_variables env_llama3) = ''http://localhost:11434''"
    and 2: "getitem (body (fst (serve_health q))) ''model'' = Inr (PStr ''llama3'')"
    and 3: "map (\<lambda>r. getitem (post_json r) ''model'') (outbound q) = [Inr (PStr ''llama3'')]"
    and 5: "OLLAMA_MODEL (startup no_variables env_llama3) = ''llama3''"
    by simp_all
  from b e have 4: "OLLAMA_MODEL (startup no_variables no_variables) = ''qwen2.5''"
    by simp
  from c f have 6: "OLLAMA_URL (startup no_variables env_remote) = ''http://10.0.0.5:11434''"
    by simp
  from d1 e f have 7: "OLLAMA_URL (startup dotenv_file no_variables) = ''http://ollama:11434''"
    by simp
  from d2 e f have 8: "OLLAMA_MODEL (startup dotenv_file no_variables) = ''mistral''"
    by simp
  show ?thesis
    using e f 1 2 3 4 5 6 7 8 unfolding q_def by simp
qed

section \<open>Cross-origin policy\<close>

text \<open>
  C9. The allow-list handed to the middleware is the two origins
  \<^verbatim>\<open>http://localhost:5173\<close> and \<^verbatim>\<open>http://localhost:3000\<close>, with all methods, all headers
  and credentials allowed. An origin on the list is echoed in
  \<^verbatim>\<open>Access-Control-Allow-Origin\<close>; for an origin that is not on it the header is not sent.
\<close>

theorem cors_allow_list:
  "allow_origins cors = [''http://localhost:5173'', ''http://localhost:3000''] \<and>
   allow_methods cors = [''*''] \<and> allow_headers cors = [''*''] \<and> allow_credentials cors \<and>
   (origin \<in> set (allow_origins cors) \<longrightarrow> access_control_allow_origin cors origin = Some origin) \<and>
   (origin \<notin> set (allow_origins cors) \<longrightarrow> access_control_allow_origin cors origin = None)"
  by (simp add: cors_def origins_def access_control_allow_origin_def)

theorem cors_allow_list_witness:
  "''http://localhost:5173'' \<in> set (allow_origins cors) \<and>
   access_control_allow_origin cors ''http://localhost:5173'' = Some ''http://localhost:5173'' \<and>
   ''http://localhost:8080'' \<notin> set (allow_origins cors) \<and>
   access_control_allow_origin cors ''http://localhost:8080'' = None"
proof -
  have a: "''http://localhost:5173'' \<in> set (allow_origins cors)"
    by (simp add: cors_def origins_def)
  have b: "''http://localhost:8080'' \<notin> set (allow_origins cors)"
    by (simp add: cors_def origins_def)
  show ?thesis
    using a b cors_allow_list [of "''http://localhost:5173''"]
      cors_allow_list [of "''http://localhost:8080''"]
    by simp
qed

section \<open>Input validation\<close>



end
